theory Spec2Isabelle
  imports Complex_Main
begin

section \<open>Wisdom of the crowds: the guessing cell of the ensemble notebook\<close>

text \<open>
  The only computation of the repository that is not a call into a library is the
  cell of \<^verbatim>\<open>00_ensemble_methods_STARTER.ipynb\<close> that scores the players' guesses
  of the cow's weight:
  \<^verbatim>\<open>
  list_of_guesses = []
  average_guess = np.mean(list_of_guesses)
  winner_count = 0
  for guess in list_of_guesses:
      if abs(guess - 1355) < abs(average_guess - 1355):
          winner_count += 1
          print("We have a winner!")
  print(f'The average guess is {average_guess}.')
  print(f'The number of people who were closer to the truth than the average is {winner_count}.')
  print(f'That is roughly {np.round(winner_count/len(list_of_guesses),0)}% of guesses!')
  \<close>

  Modelling decisions.
  \<^item> The list literal is the blank that the reader fills in: it is the argument
    \<open>guesses\<close>. The true weight is the literal \<^verbatim>\<open>1355\<close> at both places of the
    test; the model takes it as the argument \<open>truth\<close>, and \<open>penelope\<close> is the
    value of the source.
  \<^item> The variables of the cell are the fields of the record \<open>env\<close>, together with
    the text written so far. A printed line is kept as a value of the type \<open>line\<close>
    that holds the number the f-string formats, not as characters.
  \<^item> An exception is a result \<open>Inl\<close> that carries the error and the variables at
    the moment of the raise: Python does not undo the assignments and the prints made
    before it.
  \<^item> A number is a real. The \<^verbatim>\<open>nan\<close> that \<^verbatim>\<open>np.mean\<close> returns for an
    empty list is the value \<open>None\<close>.
  \<^item> The division of the last line is one float64 operation on two integers, and
    Python rounds it correctly: it is the exact quotient rounded by \<open>float64\<close>.
  \<^item> \<^verbatim>\<open>np.mean\<close> is a call into NumPy. The cell is \<open>cell_with mean\<close> for the
    function \<open>mean\<close> that computes the average, so that what is proved for every
    \<open>mean\<close> holds of whatever number the library returns. \<open>wisdom_cell\<close> is the
    cell with \<open>np_mean\<close>, the mean in exact arithmetic, and its test compares exact
    distances: this is the run of the source whenever the float64 additions, the
    division and the subtractions of that run are exact, as they are in every concrete
    run below.
  \<^item> How float64 rounds a sum, a mean or a difference that is not exact depends on
    the kind of the guesses (Python integers or floats) and on the order in which the
    library adds. The model does not fix it, and nothing below speaks of the value of
    an inexact mean, of reordered guesses or of distances that differ by a rounding.
\<close>

subsection \<open>Data\<close>

datatype error = ZeroDivisionError

datatype line =
    WinnerLine
  | AverageLine "real option"
  | CountLine nat
  | PercentLine real

record env =
  list_of_guesses :: "real list"
  average_guess :: "real option"
  winner_count :: nat
  stdout :: "line list"

definition penelope :: real where
  "penelope = 1355"

text \<open>The variables before the cell has ever run; used for concrete runs.\<close>

definition fresh :: env where
  "fresh = \<lparr>list_of_guesses = [], average_guess = None, winner_count = 0, stdout = []\<rparr>"

subsection \<open>The library calls\<close>

text \<open>
  \<^verbatim>\<open>np.mean\<close> in exact arithmetic: the sum of the elements divided by their number.
  For the empty list NumPy warns and returns \<^verbatim>\<open>nan\<close>; it does not raise.
\<close>

definition np_mean :: "real list \<Rightarrow> real option" where
  "np_mean xs = (if xs = [] then None else Some (sum_list xs / real (length xs)))"

text \<open>
  Rounding to the nearest whole number with halves going to the even neighbour, as
  IEEE 754 and \<^verbatim>\<open>np.round\<close> do.
\<close>

definition rint :: "real \<Rightarrow> real" where
  "rint x =
     (let f = \<lfloor>x\<rfloor>; d = x - of_int f
      in if d < 1 / 2 then of_int f
         else if 1 / 2 < d then of_int (f + 1)
         else if even f then of_int f else of_int (f + 1))"

text \<open>
  The float64 nearest to a real: 53 significant bits, ties to the even significand.
  The range of the exponent is not modelled; the only number rounded here is the
  quotient of a count by the length of the list, which is 0 or lies between the
  reciprocal of that length and 1.
\<close>

definition float64 :: "real \<Rightarrow> real" where
  "float64 x =
     (if x = 0 then 0
      else let e = \<lfloor>log 2 \<bar>x\<bar>\<rfloor> - 52
           in rint (x / 2 powr of_int e) * 2 powr of_int e)"

text \<open>
  Python's \<^verbatim>\<open>/\<close> on two integers: true division, correctly rounded to float64,
  raising on a zero divisor.
\<close>

definition py_truediv :: "nat \<Rightarrow> nat \<Rightarrow> error + real" where
  "py_truediv a b =
     (if b = 0 then Inl ZeroDivisionError else Inr (float64 (real a / real b)))"

text \<open>
  \<^verbatim>\<open>np.round(x, decimals)\<close> scales, rounds to the nearest whole number (\<open>rint\<close>), and
  scales back.
\<close>

definition np_round :: "real \<Rightarrow> nat \<Rightarrow> real" where
  "np_round x decimals = rint (x * 10 ^ decimals) / 10 ^ decimals"

definition print_line :: "line \<Rightarrow> env \<Rightarrow> env" where
  "print_line l s = s\<lparr>stdout := stdout s @ [l]\<rparr>"

subsection \<open>The cell\<close>

text \<open>
  The test of the \<^verbatim>\<open>if\<close>: \<^verbatim>\<open>abs(guess - 1355) < abs(average_guess - 1355)\<close>.
  A comparison with \<^verbatim>\<open>nan\<close> is false.
\<close>

definition closer :: "real \<Rightarrow> real option \<Rightarrow> real \<Rightarrow> bool" where
  "closer truth avg guess =
     (case avg of None \<Rightarrow> False | Some a \<Rightarrow> \<bar>guess - truth\<bar> < \<bar>a - truth\<bar>)"

text \<open>The \<^verbatim>\<open>for\<close> loop over the guesses that are still to be visited.\<close>

fun for_guess :: "real \<Rightarrow> real list \<Rightarrow> env \<Rightarrow> env" where
  "for_guess truth [] s = s"
| "for_guess truth (guess # rest) s =
     for_guess truth rest
       (if closer truth (average_guess s) guess
        then print_line WinnerLine (s\<lparr>winner_count := winner_count s + 1\<rparr>)
        else s)"

text \<open>The quotient \<^verbatim>\<open>winner_count/len(list_of_guesses)\<close> of the last line.\<close>

definition winner_fraction :: "env \<Rightarrow> error + real" where
  "winner_fraction s = py_truediv (winner_count s) (length (list_of_guesses s))"

text \<open>The statements of the cell in their order, for a given function \<open>mean\<close>.\<close>

definition cell_with ::
  "(real list \<Rightarrow> real option) \<Rightarrow> real \<Rightarrow> real list \<Rightarrow> env \<Rightarrow> (error \<times> env) + env" where
  "cell_with mean truth guesses s0 =
     (let s1 = s0\<lparr>list_of_guesses := guesses\<rparr>;
          s2 = s1\<lparr>average_guess := mean (list_of_guesses s1)\<rparr>;
          s3 = s2\<lparr>winner_count := 0\<rparr>;
          s4 = for_guess truth (list_of_guesses s3) s3;
          s5 = print_line (AverageLine (average_guess s4)) s4;
          s6 = print_line (CountLine (winner_count s5)) s5
      in case winner_fraction s6 of
           Inl e \<Rightarrow> Inl (e, s6)
         | Inr q \<Rightarrow> Inr (print_line (PercentLine (np_round q 0)) s6))"

definition wisdom_cell :: "real \<Rightarrow> real list \<Rightarrow> env \<Rightarrow> (error \<times> env) + env" where
  "wisdom_cell truth guesses s0 = cell_with np_mean truth guesses s0"

subsection \<open>What is observed of a run\<close>

text \<open>
  The cell keeps neither the outcome of its test for each guess nor the quotient of
  its last line. \<open>verdicts\<close> lists the value that the test of the loop takes at each
  guess, in the order of the list; \<open>printed_percent\<close> reads the number of the last
  printed line, the figure that the cell reports in front of the percent sign.
\<close>

definition verdicts :: "real \<Rightarrow> real list \<Rightarrow> bool list" where
  "verdicts truth guesses = map (closer truth (np_mean guesses)) guesses"

definition printed_percent :: "env \<Rightarrow> real option" where
  "printed_percent s =
     (if stdout s = [] then None
      else case last (stdout s) of PercentLine p \<Rightarrow> Some p | _ \<Rightarrow> None)"

text \<open>The variables at the end of a run, and the error if it ended in one.\<close>

definition final :: "(error \<times> env) + env \<Rightarrow> env" where
  "final r = (case r of Inl (e, s) \<Rightarrow> s | Inr s \<Rightarrow> s)"

definition raised :: "(error \<times> env) + env \<Rightarrow> error option" where
  "raised r = (case r of Inl (e, s) \<Rightarrow> Some e | Inr s \<Rightarrow> None)"

text \<open>The lines that a run started in \<open>s\<close> has added to the output.\<close>

definition printed :: "env \<Rightarrow> (error \<times> env) + env \<Rightarrow> line list" where
  "printed s r = drop (length (stdout s)) (stdout (final r))"

section \<open>Properties of the loop\<close>

lemma for_guess_list_of_guesses:
  "list_of_guesses (for_guess truth gs s) = list_of_guesses s"
  by (induction gs arbitrary: s) (simp_all add: print_line_def)

lemma for_guess_average_guess:
  "average_guess (for_guess truth gs s) = average_guess s"
  by (induction gs arbitrary: s) (simp_all add: print_line_def)

lemma for_guess_winner_count:
  "winner_count (for_guess truth gs s) =
     winner_count s + length (filter (closer truth (average_guess s)) gs)"
  by (induction gs arbitrary: s) (simp_all add: print_line_def)

lemma for_guess_stdout:
  "stdout (for_guess truth gs s) =
     stdout s @ replicate (length (filter (closer truth (average_guess s)) gs)) WinnerLine"
  by (induction gs arbitrary: s) (simp_all add: print_line_def replicate_app_Cons_same)

section \<open>The two ways the cell ends\<close>

lemma cell_with_empty:
  "cell_with mean truth [] s =
     Inl (ZeroDivisionError,
          s\<lparr>list_of_guesses := [], average_guess := mean [], winner_count := 0,
            stdout := stdout s @ [AverageLine (mean []), CountLine 0]\<rparr>)"
  by (simp add: cell_with_def winner_fraction_def py_truediv_def print_line_def)

lemma cell_with_nonempty:
  assumes "guesses \<noteq> []"
  shows "cell_with mean truth guesses s =
     Inr (s\<lparr>list_of_guesses := guesses,
            average_guess := mean guesses,
            winner_count := length (filter (closer truth (mean guesses)) guesses),
            stdout := stdout s
              @ replicate (length (filter (closer truth (mean guesses)) guesses)) WinnerLine
              @ [AverageLine (mean guesses),
                 CountLine (length (filter (closer truth (mean guesses)) guesses)),
                 PercentLine (np_round (float64
                    (real (length (filter (closer truth (mean guesses)) guesses))
                       / real (length guesses))) 0)]\<rparr>)"
  using assms
  by (simp add: cell_with_def winner_fraction_def py_truediv_def print_line_def Let_def
      for_guess_list_of_guesses for_guess_average_guess for_guess_winner_count for_guess_stdout)

lemma wisdom_cell_empty:
  "wisdom_cell truth [] s =
     Inl (ZeroDivisionError,
          s\<lparr>list_of_guesses := [], average_guess := None, winner_count := 0,
            stdout := stdout s @ [AverageLine None, CountLine 0]\<rparr>)"
  by (simp add: wisdom_cell_def cell_with_empty np_mean_def)

lemma wisdom_cell_nonempty:
  assumes "guesses \<noteq> []"
  shows "wisdom_cell truth guesses s =
     Inr (s\<lparr>list_of_guesses := guesses,
            average_guess := np_mean guesses,
            winner_count := length (filter (closer truth (np_mean guesses)) guesses),
            stdout := stdout s
              @ replicate (length (filter (closer truth (np_mean guesses)) guesses)) WinnerLine
              @ [AverageLine (np_mean guesses),
                 CountLine (length (filter (closer truth (np_mean guesses)) guesses)),
                 PercentLine (np_round (float64
                    (real (length (filter (closer truth (np_mean guesses)) guesses))
                       / real (length guesses))) 0)]\<rparr>)"
  unfolding wisdom_cell_def using assms by (rule cell_with_nonempty)

section \<open>Rounding to a whole number\<close>

lemma np_round_0: "np_round x 0 = rint x"
  by (simp add: np_round_def)

lemma rint_near: "\<bar>rint x - x\<bar> \<le> 1 / 2"
  unfolding rint_def Let_def by (auto; linarith)

lemma rint_unit:
  assumes "0 \<le> x" and "x \<le> 1"
  shows "rint x = 0 \<or> rint x = 1"
proof (cases "x = 1")
  case True
  then show ?thesis by (simp add: rint_def)
next
  case False
  with assms have "\<lfloor>x\<rfloor> = 0" by (simp add: floor_eq_iff)
  then show ?thesis by (simp add: rint_def Let_def)
qed

lemma rint_not_percent:
  assumes "0 < x" and "x \<le> 1"
  shows "rint x \<noteq> 100 * x"
proof
  assume e: "rint x = 100 * x"
  from assms have "rint x = 0 \<or> rint x = 1" by (intro rint_unit) simp_all
  then show False
  proof
    assume "rint x = 0"
    with e assms(1) show False by simp
  next
    assume one: "rint x = 1"
    from e one have "100 * x = 1" by simp
    then have x: "x = 1 / 100" by simp
    have "rint (1 / 100) = 0" by (simp add: rint_def)
    with one show False unfolding x by simp
  qed
qed

section \<open>Rounding to float64\<close>

lemma rint_of_int: "rint (of_int z) = of_int z"
  by (simp add: rint_def)

lemma rint_cases: "rint x = of_int \<lfloor>x\<rfloor> \<or> (rint x = of_int \<lfloor>x\<rfloor> + 1 \<and> of_int \<lfloor>x\<rfloor> < x)"
  unfolding rint_def Let_def by (auto; linarith)

lemma rint_le:
  assumes "x \<le> of_int z"
  shows "rint x \<le> of_int z"
proof -
  have f: "\<lfloor>x\<rfloor> \<le> z" using assms by (simp add: floor_le_iff)
  from rint_cases [of x] show ?thesis
  proof
    assume "rint x = of_int \<lfloor>x\<rfloor>"
    with f show ?thesis by simp
  next
    assume a: "rint x = of_int \<lfloor>x\<rfloor> + 1 \<and> of_int \<lfloor>x\<rfloor> < x"
    then have "of_int \<lfloor>x\<rfloor> < (of_int z :: real)" using assms by linarith
    then have "\<lfloor>x\<rfloor> < z" by simp
    then have "\<lfloor>x\<rfloor> + 1 \<le> z" by simp
    then have "(of_int (\<lfloor>x\<rfloor> + 1) :: real) \<le> of_int z" by (simp only: of_int_le_iff)
    with a show ?thesis by simp
  qed
qed

lemma rint_ge:
  assumes "of_int z \<le> x"
  shows "of_int z \<le> rint x"
proof -
  have f: "z \<le> \<lfloor>x\<rfloor>" using assms by (simp add: le_floor_iff)
  then have "(of_int z :: real) \<le> of_int \<lfloor>x\<rfloor>" by simp
  with rint_cases [of x] show ?thesis by auto
qed

lemma float64_eval:
  assumes "2 powr of_int k \<le> \<bar>x\<bar>" and "\<bar>x\<bar> < 2 powr of_int (k + 1)"
  shows "float64 x = rint (x / 2 powr of_int (k - 52)) * 2 powr of_int (k - 52)"
proof -
  have "0 < (2::real) powr of_int k" by simp
  with assms(1) have pos: "0 < \<bar>x\<bar>" by linarith
  then have "\<lfloor>log 2 \<bar>x\<bar>\<rfloor> = k"
    using assms by (simp add: floor_log_eq_powr_iff)
  with pos show ?thesis by (simp add: float64_def)
qed

lemma two_powr_neg: "2 powr of_int (- int n) = 1 / (2 ^ n :: real)"
proof -
  have "(2::real) powr of_int (- int n) = 2 powr (- real n)" by simp
  also have "\<dots> = inverse (2 powr real n)" by (rule powr_minus)
  also have "\<dots> = inverse (2 ^ n)" by (simp only: powr_realpow [of 2 n, simplified])
  finally show ?thesis by (simp add: divide_inverse)
qed

lemma float64_eval_small:
  assumes "1 / 2 ^ n \<le> \<bar>x\<bar>" and "\<bar>x\<bar> < 2 / 2 ^ n"
  shows "float64 x = rint (x * 2 ^ (n + 52)) / 2 ^ (n + 52)"
proof -
  have lo: "2 powr of_int (- int n) \<le> \<bar>x\<bar>"
    using assms(1) by (simp only: two_powr_neg)
  have "(2::real) powr of_int (- int n + 1) = 2 powr of_int (- int n) * 2 powr 1"
    by (simp only: of_int_add powr_add of_int_1)
  also have "\<dots> = 2 / 2 ^ n" by (simp only: two_powr_neg) simp
  finally have hi: "\<bar>x\<bar> < 2 powr of_int (- int n + 1)"
    using assms(2) by simp
  have "- int n - 52 = - int (n + 52)" by simp
  then have "float64 x = rint (x / 2 powr of_int (- int (n + 52))) * 2 powr of_int (- int (n + 52))"
    using float64_eval [OF lo hi] by simp
  then show ?thesis by (simp only: two_powr_neg) simp
qed

lemma float64_quarter: "float64 (1 / 4) = 1 / 4"
proof -
  have "float64 (1 / 4) = rint ((1 / 4) * 2 ^ (2 + 52)) / 2 ^ (2 + 52)"
    by (rule float64_eval_small) simp_all
  also have "(1 / 4) * 2 ^ (2 + 52) = (of_int 4503599627370496 :: real)" by simp
  finally show ?thesis by (simp only: rint_of_int) simp
qed

lemma float64_two_thirds: "float64 (2 / 3) = 6004799503160661 / 9007199254740992"
proof -
  have "float64 (2 / 3) = rint ((2 / 3) * 2 ^ (1 + 52)) / 2 ^ (1 + 52)"
    by (rule float64_eval_small) simp_all
  also have "(2 / 3) * 2 ^ (1 + 52) = (18014398509481984 / 3 :: real)" by simp
  also have "rint (18014398509481984 / 3) = 6004799503160661"
    by (simp add: rint_def)
  finally show ?thesis by simp
qed

lemma float64_0: "float64 0 = 0"
  by (simp add: float64_def)

lemma float64_near: "\<bar>float64 x - x\<bar> \<le> \<bar>x\<bar> / 2 ^ 53"
proof (cases "x = 0")
  case True then show ?thesis by (simp add: float64_def)
next
  case False
  define e where "e = \<lfloor>log 2 \<bar>x\<bar>\<rfloor> - 52"
  define u :: real where "u = 2 powr of_int e"
  have u: "0 < u" by (simp add: u_def)
  have fl: "float64 x = rint (x / u) * u"
    using False by (simp add: float64_def e_def u_def)
  have "of_int \<lfloor>log 2 \<bar>x\<bar>\<rfloor> \<le> log 2 \<bar>x\<bar>" by simp
  then have "of_int e \<le> log 2 \<bar>x\<bar> - 52" by (simp add: e_def)
  then have "u \<le> 2 powr (log 2 \<bar>x\<bar> - 52)"
    unfolding u_def by (intro powr_mono) simp_all
  also have "\<dots> = \<bar>x\<bar> / 2 ^ 52"
    using False by (simp add: powr_diff)
  finally have ule: "u \<le> \<bar>x\<bar> / 2 ^ 52" .
  have "float64 x - x = (rint (x / u) - x / u) * u"
    using u by (simp add: fl algebra_simps)
  then have "\<bar>float64 x - x\<bar> = \<bar>rint (x / u) - x / u\<bar> * u"
    using u by (simp add: abs_mult)
  also have "\<dots> \<le> (1 / 2) * u"
    using rint_near [of "x / u"] u by (intro mult_right_mono) simp_all
  also have "\<dots> \<le> (1 / 2) * (\<bar>x\<bar> / 2 ^ 52)"
    using ule by simp
  finally show ?thesis by simp
qed

lemma float64_unit:
  assumes "0 \<le> x" and "x \<le> 1"
  shows "0 \<le> float64 x \<and> float64 x \<le> 1"
proof (cases "x = 0")
  case True then show ?thesis by (simp add: float64_def)
next
  case False
  with assms have pos: "0 < x" by simp
  define e where "e = \<lfloor>log 2 \<bar>x\<bar>\<rfloor> - 52"
  define n where "n = nat (- e)"
  have "log 2 x \<le> 0" using pos assms(2) by simp
  then have "\<lfloor>log 2 \<bar>x\<bar>\<rfloor> \<le> 0" using pos by (simp add: floor_le_iff)
  then have e: "e = - int n" by (simp add: e_def n_def)
  have u: "2 powr of_int e = 1 / (2 ^ n :: real)"
    by (simp add: e powr_minus powr_realpow divide_inverse)
  have fl: "float64 x = rint (x * 2 ^ n) / 2 ^ n"
    using False u by (simp add: float64_def e_def [symmetric])
  have "x * 2 ^ n \<le> of_int (2 ^ n)" using assms(2) by simp
  then have "rint (x * 2 ^ n) \<le> of_int (2 ^ n)" by (rule rint_le)
  then have up: "rint (x * 2 ^ n) / 2 ^ n \<le> 1" by simp
  have "of_int 0 \<le> x * 2 ^ n" using assms(1) by simp
  then have "of_int 0 \<le> rint (x * 2 ^ n)" by (rule rint_ge)
  then have "0 \<le> rint (x * 2 ^ n) / 2 ^ n" by simp
  with up show ?thesis by (simp add: fl)
qed

lemma float64_pos:
  assumes "0 < x"
  shows "0 < float64 x"
proof -
  define d where "d = \<bar>x\<bar> / 2 ^ 53"
  have "\<bar>float64 x - x\<bar> \<le> d" unfolding d_def by (rule float64_near)
  moreover have "d < x" using assms by (simp add: d_def)
  ultimately show ?thesis by linarith
qed

lemma rint_unit_half:
  assumes "0 \<le> x" and "x \<le> 1"
  shows "rint x = 1 \<longleftrightarrow> 1 / 2 < x"
proof (cases "x = 1")
  case True
  then show ?thesis by (simp add: rint_def)
next
  case False
  with assms have "\<lfloor>x\<rfloor> = 0" by (simp add: floor_eq_iff)
  then show ?thesis by (simp add: rint_def Let_def)
qed

lemma rint_not_percent_exact:
  assumes "0 < r" and "0 \<le> q" and "q \<le> 1" and "\<bar>q - r\<bar> \<le> \<bar>r\<bar> / 2 ^ 53"
  shows "rint q \<noteq> 100 * r"
proof
  assume e: "rint q = 100 * r"
  from assms(2,3) have "rint q = 0 \<or> rint q = 1" by (rule rint_unit)
  then show False
  proof
    assume "rint q = 0"
    with e assms(1) show False by simp
  next
    assume one: "rint q = 1"
    with e have "100 * r = 1" by simp
    then have rv: "r = 1 / 100" by simp
    from assms(4) have "\<bar>q - 1 / 100\<bar> \<le> \<bar>1 / 100 :: real\<bar> / 2 ^ 53" by (simp only: rv)
    moreover have "\<bar>1 / 100 :: real\<bar> / 2 ^ 53 \<le> 1 / 100" by simp
    ultimately have "q \<le> 1 / 2" by linarith
    moreover from assms(2,3) have "rint q = 1 \<longleftrightarrow> 1 / 2 < q" by (rule rint_unit_half)
    ultimately show False using one by simp
  qed
qed

section \<open>The quotient of the last line\<close>

lemma fraction_unit:
  "0 \<le> real (length (filter P xs)) / real (length xs) \<and>
   real (length (filter P xs)) / real (length xs) \<le> 1"
proof -
  have "length (filter P xs) \<le> length xs" by (rule length_filter_le)
  then have "real (length (filter P xs)) \<le> real (length xs)" by simp
  then show ?thesis by (simp add: divide_le_eq_1)
qed

section \<open>The claims\<close>

text \<open>
  How the words of the specification are read on the cell: the consensus is the variable
  \<open>average_guess\<close>, the winner count is the variable \<open>winner_count\<close>, the winner
  fraction is the quotient \<open>winner_fraction\<close> that the last line computes, the verdicts
  are the values of the test of the loop (\<open>verdicts\<close>), and what the cell reports is what
  it prints. The error that the specification calls \<^verbatim>\<open>InvalidInputError\<close> is Python's
  \<open>ZeroDivisionError\<close>, the only exception that the cell can raise.
\<close>

subsection \<open>C1: the empty list raises, every other list succeeds\<close>

text \<open>
  C1. With no guesses the cell ends in an error, \<open>ZeroDivisionError\<close>, raised by the
  division of the last line after the average (\<^verbatim>\<open>nan\<close>) and the count (0) have been
  printed. With at least one guess the cell runs to its end. No run ends in another
  error, and no run on a non-empty list ends in an error.
\<close>

theorem empty_guesses_raise:
  "wisdom_cell truth [] s =
     Inl (ZeroDivisionError,
          s\<lparr>list_of_guesses := [], average_guess := None, winner_count := 0,
            stdout := stdout s @ [AverageLine None, CountLine 0]\<rparr>)
   \<and> (guesses \<noteq> [] \<longrightarrow> (\<exists>s'. wisdom_cell truth guesses s = Inr s'))
   \<and> (\<forall>e s'. wisdom_cell truth guesses s = Inl (e, s') \<longrightarrow> e = ZeroDivisionError \<and> guesses = [])"
proof (intro conjI allI impI)
  show "wisdom_cell truth [] s =
     Inl (ZeroDivisionError,
          s\<lparr>list_of_guesses := [], average_guess := None, winner_count := 0,
            stdout := stdout s @ [AverageLine None, CountLine 0]\<rparr>)"
    by (rule wisdom_cell_empty)
next
  assume "guesses \<noteq> []"
  then show "\<exists>s'. wisdom_cell truth guesses s = Inr s'"
    by (simp add: wisdom_cell_nonempty)
next
  fix e s' assume r: "wisdom_cell truth guesses s = Inl (e, s')"
  show "e = ZeroDivisionError" by (cases e) simp
  show "guesses = []"
  proof (rule ccontr)
    assume "guesses \<noteq> []"
    with r show False by (simp add: wisdom_cell_nonempty)
  qed
qed

theorem empty_guesses_raise_witness:
  "[1000, 1200] \<noteq> ([] :: real list)
   \<and> (\<exists>s'. wisdom_cell penelope [1000, 1200] fresh = Inr s')
   \<and> wisdom_cell penelope [] fresh =
       Inl (ZeroDivisionError,
            \<lparr>list_of_guesses = [], average_guess = None, winner_count = 0,
             stdout = [AverageLine None, CountLine 0]\<rparr>)"
  using empty_guesses_raise [where truth = penelope and s = fresh and guesses = "[1000, 1200]"]
  by (simp add: fresh_def)

subsection \<open>C4: bounds of the count and of the quotient\<close>

text \<open>
  C4 as stated says that the winner fraction is the count divided by the number of
  guesses, exactly. The quotient of the last line is a float64: on the guesses 1345,
  1300, 1000 two of three guesses win, and the quotient is
  6004799503160661 / 9007199254740992 (printed by Python as 0.6666666666666666), which
  is not two thirds. Every other step of this run is exact in float64: the sum 3645,
  the average 1215 and the distances 10, 55, 355 and 140.
\<close>

theorem winner_fraction_counterexample:
  "wisdom_cell penelope [1345, 1300, 1000] fresh =
     Inr \<lparr>list_of_guesses = [1345, 1300, 1000], average_guess = Some 1215,
          winner_count = 2,
          stdout = [WinnerLine, WinnerLine, AverageLine (Some 1215), CountLine 2, PercentLine 1]\<rparr>
   \<and> winner_fraction (final (wisdom_cell penelope [1345, 1300, 1000] fresh))
       = Inr (6004799503160661 / 9007199254740992)
   \<and> winner_fraction (final (wisdom_cell penelope [1345, 1300, 1000] fresh))
       \<noteq> Inr (real (winner_count (final (wisdom_cell penelope [1345, 1300, 1000] fresh)))
       / real (length (list_of_guesses (final (wisdom_cell penelope [1345, 1300, 1000] fresh)))))"
  by (simp add: wisdom_cell_nonempty np_mean_def closer_def penelope_def fresh_def
      np_round_0 rint_def final_def winner_fraction_def py_truediv_def float64_two_thirds)

text \<open>
  C4, amended. For a non-empty list and any true weight, \<open>winner_count\<close> is at most
  the number of guesses, and the winner fraction is the count divided by the number of
  guesses rounded to the nearest float64: it lies between 0 and 1 and differs from the
  exact quotient by at most that quotient divided by \<open>2 ^ 53\<close>.
\<close>

theorem winner_fraction_bounds:
  assumes "guesses \<noteq> []"
  shows "\<exists>s' q. wisdom_cell truth guesses s = Inr s'
     \<and> winner_count s' \<le> length guesses
     \<and> winner_fraction s' = Inr q
     \<and> q = float64 (real (winner_count s') / real (length guesses))
     \<and> 0 \<le> q \<and> q \<le> 1
     \<and> \<bar>q - real (winner_count s') / real (length guesses)\<bar>
          \<le> (real (winner_count s') / real (length guesses)) / 2 ^ 53"
proof -
  let ?k = "length (filter (closer truth (np_mean guesses)) guesses)"
  let ?r = "real ?k / real (length guesses)"
  have unit: "0 \<le> ?r \<and> ?r \<le> 1" by (rule fraction_unit)
  then have q: "0 \<le> float64 ?r \<and> float64 ?r \<le> 1" by (intro float64_unit) simp_all
  have "\<bar>float64 ?r - ?r\<bar> \<le> \<bar>?r\<bar> / 2 ^ 53" by (rule float64_near)
  moreover have "\<bar>?r\<bar> = ?r" using unit by simp
  ultimately have near: "\<bar>float64 ?r - ?r\<bar> \<le> ?r / 2 ^ 53" by (simp only:)
  have le: "?k \<le> length guesses" by (rule length_filter_le)
  show ?thesis
    using assms q near le
    by (simp only: wisdom_cell_nonempty [OF assms])
      (simp add: winner_fraction_def py_truediv_def)
qed

text \<open>A run whose quotient is exact: one winner among four guesses.\<close>

theorem winner_fraction_bounds_witness:
  "[1000, 1200, 1400, 1600] \<noteq> ([] :: real list)
   \<and> (\<exists>s'. wisdom_cell penelope [1000, 1200, 1400, 1600] fresh = Inr s'
        \<and> winner_count s' \<le> 4 \<and> winner_fraction s' = Inr (1 / 4))"
  using winner_fraction_bounds [where truth = penelope and s = fresh
      and guesses = "[1000, 1200, 1400, 1600]"]
  by (auto simp add: wisdom_cell_nonempty np_mean_def closer_def penelope_def fresh_def
      winner_fraction_def py_truediv_def float64_quarter)

subsection \<open>C5: the scenario 1000, 1200, 1400, 1600 against 1355\<close>

text \<open>
  C5. On the guesses 1000, 1200, 1400, 1600 with the true weight 1355 of the source,
  started from any variables, the cell ends with the average 1300 and one winner; the
  quotient of the last line is 0.25; the test of the loop is true for the third guess
  only. The distances of the guesses are 355, 155, 45, 245 and that of the average
  is 55. The lines printed are one winner line, the average 1300, the count 1 and the
  rounded figure 0.
\<close>

theorem penelope_scenario:
  "wisdom_cell 1355 [1000, 1200, 1400, 1600] s =
     Inr (s\<lparr>list_of_guesses := [1000, 1200, 1400, 1600], average_guess := Some 1300,
            winner_count := 1,
            stdout := stdout s @ [WinnerLine, AverageLine (Some 1300), CountLine 1, PercentLine 0]\<rparr>)
   \<and> winner_fraction (final (wisdom_cell 1355 [1000, 1200, 1400, 1600] s)) = Inr 0.25
   \<and> verdicts 1355 [1000, 1200, 1400, 1600] = [False, False, True, False]
   \<and> map (\<lambda>e. \<bar>e - 1355\<bar>) [1000, 1200, 1400, 1600 :: real] = [355, 155, 45, 245]
   \<and> \<bar>1300 - 1355 :: real\<bar> = 55"
  by (simp add: wisdom_cell_nonempty np_mean_def closer_def float64_quarter
      np_round_0 rint_def final_def winner_fraction_def py_truediv_def verdicts_def)

subsection \<open>C6: an average that hits the true weight leaves no winner\<close>

text \<open>
  C6. Whatever function computes the mean: when the average that the cell has computed
  for a non-empty list is exactly the true weight, the cell ends with no winner, the
  test of the loop is false for every guess (also for a guess that is itself the true
  weight), and the lines printed are the average, the count 0 and the figure 0. In
  particular the guesses 500, 500, 500 with the true weight 500 give the average 500
  and no winner; so do they with the true weight 1355 of the source, where all three
  guesses tie with their average.
\<close>

theorem consensus_on_truth_no_winner:
  "(guesses \<noteq> [] \<and> mean guesses = Some truth \<longrightarrow>
      (\<exists>s'. cell_with mean truth guesses s = Inr s' \<and> average_guess s' = Some truth
         \<and> winner_count s' = 0
         \<and> map (closer truth (average_guess s')) guesses = replicate (length guesses) False
         \<and> printed s (Inr s') = [AverageLine (Some truth), CountLine 0, PercentLine 0]))
   \<and> (\<exists>s'. wisdom_cell 500 [500, 500, 500] s = Inr s' \<and> average_guess s' = Some 500
         \<and> winner_count s' = 0)
   \<and> (\<exists>s'. wisdom_cell 1355 [500, 500, 500] s = Inr s' \<and> average_guess s' = Some 500
         \<and> winner_count s' = 0)"
proof (intro conjI impI)
  assume a: "guesses \<noteq> [] \<and> mean guesses = Some truth"
  have never: "closer truth (Some truth) = (\<lambda>e. False)"
    by (rule ext) (simp add: closer_def)
  show "\<exists>s'. cell_with mean truth guesses s = Inr s' \<and> average_guess s' = Some truth
         \<and> winner_count s' = 0
         \<and> map (closer truth (average_guess s')) guesses = replicate (length guesses) False
         \<and> printed s (Inr s') = [AverageLine (Some truth), CountLine 0, PercentLine 0]"
    using a
    by (simp add: cell_with_nonempty never map_replicate_const printed_def final_def
        float64_0 np_round_0 rint_def)
next
  show "\<exists>s'. wisdom_cell 500 [500, 500, 500] s = Inr s' \<and> average_guess s' = Some 500
         \<and> winner_count s' = 0"
    by (simp add: wisdom_cell_nonempty np_mean_def closer_def)
next
  show "\<exists>s'. wisdom_cell 1355 [500, 500, 500] s = Inr s' \<and> average_guess s' = Some 500
         \<and> winner_count s' = 0"
    by (simp add: wisdom_cell_nonempty np_mean_def closer_def)
qed

text \<open>
  A run of the source where the first guess is the true weight and so is the average:
  the sum 4065 and its third 1355 are exact in float64.
\<close>

theorem consensus_on_truth_no_winner_witness:
  "[1355, 1000, 1710] \<noteq> ([] :: real list) \<and> np_mean [1355, 1000, 1710] = Some penelope
   \<and> (\<exists>s'. cell_with np_mean penelope [1355, 1000, 1710] fresh = Inr s'
         \<and> average_guess s' = Some penelope \<and> winner_count s' = 0
         \<and> printed fresh (Inr s') = [AverageLine (Some penelope), CountLine 0, PercentLine 0])"
proof -
  have h: "[1355, 1000, 1710] \<noteq> ([] :: real list) \<and> np_mean [1355, 1000, 1710] = Some penelope"
    by (simp add: np_mean_def penelope_def)
  show ?thesis
    using h consensus_on_truth_no_winner [where mean = np_mean and truth = penelope
      and s = fresh and guesses = "[1355, 1000, 1710]"]
    by auto
qed

subsection \<open>C8: a run is determined by the guesses and the true weight\<close>

text \<open>
  C8. Two runs on the same guesses and the same true weight, started from any two sets
  of variables, end the same way (the same error or none), with the same average, the
  same count, the same quotient and the same lines added to the output; the list of
  guesses at the end is the list that was given; the count is the number of true
  verdicts, which are a function of the guesses and the true weight alone.
\<close>

theorem run_depends_on_inputs_only:
  "raised (wisdom_cell truth guesses s1) = raised (wisdom_cell truth guesses s2)
   \<and> average_guess (final (wisdom_cell truth guesses s1))
       = average_guess (final (wisdom_cell truth guesses s2))
   \<and> winner_count (final (wisdom_cell truth guesses s1))
       = winner_count (final (wisdom_cell truth guesses s2))
   \<and> winner_fraction (final (wisdom_cell truth guesses s1))
       = winner_fraction (final (wisdom_cell truth guesses s2))
   \<and> printed s1 (wisdom_cell truth guesses s1) = printed s2 (wisdom_cell truth guesses s2)
   \<and> list_of_guesses (final (wisdom_cell truth guesses s1)) = guesses
   \<and> length (filter (\<lambda>b. b) (verdicts truth guesses))
       = winner_count (final (wisdom_cell truth guesses s1))"
proof (cases "guesses = []")
  case True
  then show ?thesis
    by (simp add: wisdom_cell_empty raised_def final_def printed_def winner_fraction_def verdicts_def)
next
  case False
  have "filter (\<lambda>b. b) (map f xs) = map f (filter f xs)" for f :: "real \<Rightarrow> bool" and xs
    by (induction xs) simp_all
  then show ?thesis
    by (simp add: wisdom_cell_nonempty [OF False] raised_def final_def printed_def
        winner_fraction_def verdicts_def)
qed

subsection \<open>C10: the figure in front of the percent sign\<close>

text \<open>
  C10. For a non-empty list the figure that the cell prints as a percentage is the
  quotient of the count by the number of guesses rounded to no decimals: a whole
  number at most one half away from the quotient, namely 1 when the quotient exceeds
  one half and 0 otherwise. Whenever the count is neither 0 nor the number of guesses,
  the figure differs from one hundred times the quotient, both the float64 quotient of
  the cell and the exact one.
\<close>

theorem printed_percent_is_rounded_fraction:
  assumes "guesses \<noteq> []"
  shows "\<exists>s' q p. wisdom_cell truth guesses s = Inr s'
     \<and> winner_fraction s' = Inr q \<and> printed_percent s' = Some p
     \<and> p = np_round q 0
     \<and> \<bar>p - q\<bar> \<le> 1 / 2
     \<and> (p = 0 \<or> p = 1)
     \<and> (p = 1 \<longleftrightarrow> 1 / 2 < q)
     \<and> (0 < winner_count s' \<and> winner_count s' < length guesses
          \<longrightarrow> p \<noteq> 100 * q
            \<and> p \<noteq> 100 * (real (winner_count s') / real (length guesses)))"
proof -
  let ?k = "length (filter (closer truth (np_mean guesses)) guesses)"
  let ?r = "real ?k / real (length guesses)"
  let ?q = "float64 ?r"
  have n: "0 < real (length guesses)" using assms by simp
  have r: "0 \<le> ?r \<and> ?r \<le> 1" by (rule fraction_unit)
  then have q: "0 \<le> ?q \<and> ?q \<le> 1" by (intro float64_unit) simp_all
  have bit: "rint ?q = 0 \<or> rint ?q = 1" using q by (intro rint_unit) simp_all
  have half: "rint ?q = 1 \<longleftrightarrow> 1 / 2 < ?q" using q by (intro rint_unit_half) simp_all
  have near: "\<bar>rint ?q - ?q\<bar> \<le> 1 / 2" by (rule rint_near)
  have off: "rint ?q \<noteq> 100 * ?q \<and> rint ?q \<noteq> 100 * ?r" if "0 < ?k"
  proof
    have rpos: "0 < ?r" using that n by simp
    then have "0 < ?q" by (rule float64_pos)
    then show "rint ?q \<noteq> 100 * ?q" using q by (intro rint_not_percent) simp_all
    show "rint ?q \<noteq> 100 * ?r"
    proof (rule rint_not_percent_exact)
      show "0 < ?r" by (rule rpos)
      show "0 \<le> ?q" using q by simp
      show "?q \<le> 1" using q by simp
      show "\<bar>?q - ?r\<bar> \<le> \<bar>?r\<bar> / 2 ^ 53" by (rule float64_near)
    qed
  qed
  obtain s' where run: "wisdom_cell truth guesses s = Inr s'"
    and wc: "winner_count s' = ?k" and wf: "winner_fraction s' = Inr ?q"
    and pp: "printed_percent s' = Some (rint ?q)"
    by (simp add: wisdom_cell_nonempty [OF assms] printed_percent_def np_round_0
        winner_fraction_def py_truediv_def assms)
  show ?thesis
  proof (rule exI [of _ s'], rule exI [of _ "?q"], rule exI [of _ "rint ?q"], intro conjI impI)
    show "wisdom_cell truth guesses s = Inr s'" by (rule run)
    show "winner_fraction s' = Inr ?q" by (rule wf)
    show "printed_percent s' = Some (rint ?q)" by (rule pp)
    show "rint ?q = np_round ?q 0" by (simp only: np_round_0)
    show "\<bar>rint ?q - ?q\<bar> \<le> 1 / 2" by (rule near)
    show "rint ?q = 0 \<or> rint ?q = 1" by (rule bit)
    show "rint ?q = 1 \<longleftrightarrow> 1 / 2 < ?q" by (rule half)
  next
    assume "0 < winner_count s' \<and> winner_count s' < length guesses"
    then have "0 < ?k" by (simp only: wc)
    then show "rint ?q \<noteq> 100 * ?q" using off by blast
  next
    assume "0 < winner_count s' \<and> winner_count s' < length guesses"
    then have "0 < ?k" by (simp only: wc)
    then show "rint ?q \<noteq> 100 * (real (winner_count s') / real (length guesses))"
      unfolding wc using off by blast
  qed
qed

text \<open>
  Two runs of the source, exact in float64 up to the last division: one winner among
  four guesses prints 0, two winners among three guesses print 1.
\<close>

theorem printed_percent_is_rounded_fraction_witness:
  "[1000, 1200, 1400, 1600] \<noteq> ([] :: real list)
   \<and> (\<exists>s'. wisdom_cell penelope [1000, 1200, 1400, 1600] fresh = Inr s'
        \<and> 0 < winner_count s' \<and> winner_count s' < length [1000, 1200, 1400, 1600 :: real]
        \<and> winner_fraction s' = Inr (1 / 4)
        \<and> printed_percent s' = Some 0)
   \<and> [1345, 1300, 1000] \<noteq> ([] :: real list)
   \<and> (\<exists>s'. wisdom_cell penelope [1345, 1300, 1000] fresh = Inr s'
        \<and> 0 < winner_count s' \<and> winner_count s' < length [1345, 1300, 1000 :: real]
        \<and> winner_fraction s' = Inr (6004799503160661 / 9007199254740992)
        \<and> printed_percent s' = Some 1)"
  using printed_percent_is_rounded_fraction [where truth = penelope and s = fresh
      and guesses = "[1000, 1200, 1400, 1600]"]
    printed_percent_is_rounded_fraction [where truth = penelope and s = fresh
      and guesses = "[1345, 1300, 1000]"]
  by (auto simp add: wisdom_cell_nonempty np_mean_def closer_def penelope_def fresh_def
      np_round_0 rint_def printed_percent_def winner_fraction_def py_truediv_def
      float64_quarter float64_two_thirds)

end
